theory Spec2Isabelle
  imports Complex_Main "HOL-Library.Char_ord" "HOL-Library.List_Lexorder"
    "HOL-Library.Multiset"
begin

section \<open>Data model (app/models/models.go)\<close>

text \<open>
  A \<^verbatim>\<open>time.Time\<close> is kept as its calendar year (what \<^verbatim>\<open>Year()\<close> returns) and the
  position of the instant inside that year. Strings are byte strings. Every Go struct is a
  record with the fields of the source; fields of different structs that share a name are
  told apart by the qualified selector (\<open>Applicant.ID\<close>, \<open>Scheme.ID\<close>). The amount of a
  benefit, a \<^verbatim>\<open>float64\<close> that no operation computes with, is kept as a real number.
\<close>

record gotime =
  Year :: int
  Instant :: nat

record HouseholdMember =
  ID :: string
  ApplicantID :: string
  Name :: string
  EmploymentStatus :: string
  Sex :: string
  DateOfBirth :: gotime
  Relation :: string
  CreatedAt :: gotime
  UpdatedAt :: gotime

record Applicant =
  ID :: string
  Name :: string
  EmploymentStatus :: string
  Sex :: string
  DateOfBirth :: gotime
  MaritalStatus :: string
  CreatedAt :: gotime
  UpdatedAt :: gotime
  Household :: "HouseholdMember list"

record ChildCriteria =
  SchoolLevel :: string

record Criteria =
  EmploymentStatus :: string
  MaritalStatus :: string
  HasChildren :: ChildCriteria

record Benefit =
  ID :: string
  SchemeID :: string
  Name :: string
  Description :: string
  Amount :: real
  CreatedAt :: gotime
  UpdatedAt :: gotime

record Scheme =
  ID :: string
  Name :: string
  Description :: string
  Criteria :: Criteria
  CreatedAt :: gotime
  UpdatedAt :: gotime
  Benefits :: "Benefit list"

text \<open>\<^verbatim>\<open>sql.NullTime\<close> is an optional time; a nil pointer is \<open>None\<close>.\<close>

record Application =
  ID :: string
  ApplicantID :: string
  SchemeID :: string
  Status :: string
  ApplicationDate :: gotime
  DecisionDate :: "gotime option"
  Notes :: string
  CreatedAt :: gotime
  UpdatedAt :: gotime
  Applicant :: "Applicant option"
  Scheme :: "Scheme option"

record ApplicationRequest =
  ApplicantID :: string
  SchemeID :: string
  Notes :: string

section \<open>The two library functions of package strings that the evaluator calls\<close>

text \<open>
  \<^verbatim>\<open>strings.ToLower\<close> first scans the bytes of the string. When every byte is below
  \<^verbatim>\<open>utf8.RuneSelf\<close> (0x80), it adds \<^verbatim>\<open>'a' - 'A'\<close> to every byte in \<^verbatim>\<open>'A'..'Z'\<close> and keeps
  the others. Otherwise it returns \<^verbatim>\<open>Map(unicode.ToLower, s)\<close>, which decodes the runes of
  the string, maps each through the Unicode case tables and writes U+FFFD for an invalid
  byte. The tables belong to the Go standard library, not to the repository: the result
  of \<^verbatim>\<open>ToLower\<close> on a string that is not ASCII is the parameter \<open>ulower\<close> of \<open>ToLower\<close> and
  of every operation that reaches it, and each theorem holds for every \<open>ulower\<close>, so for
  the mapping of the library too.
  \<^verbatim>\<open>strings.Contains s substr\<close> holds when \<open>substr\<close> occurs at some position of \<open>s\<close>
  (lemma \<open>Contains_iff\<close>).
\<close>

definition toLowerByte :: "char \<Rightarrow> char" where
  "toLowerByte c =
     (if CHR ''A'' \<le> c \<and> c \<le> CHR ''Z'' then char_of (of_char c + (32::nat)) else c)"

definition isASCII :: "string \<Rightarrow> bool" where
  "isASCII s = list_all (\<lambda>c. of_char c < (128::nat)) s"

definition ToLower :: "(string \<Rightarrow> string) \<Rightarrow> string \<Rightarrow> string" where
  "ToLower ulower s = (if isASCII s then map toLowerByte s else ulower s)"

fun Contains :: "string \<Rightarrow> string \<Rightarrow> bool" where
  "Contains [] substr = (substr = [])"
| "Contains (c # cs) substr =
     (take (length substr) (c # cs) = substr \<or> Contains cs substr)"

section \<open>The eligibility evaluator (app/models/scheme_repository.go, isEligible)\<close>

text \<open>
  \<^verbatim>\<open>isEligible\<close> reads the clock with \<^verbatim>\<open>time.Now()\<close>; the reading is the parameter
  \<open>now\<close>. One call of an operation takes place at one instant: every \<^verbatim>\<open>time.Now()\<close>
  of the call, in the evaluator and in the repository, reads the same \<open>now\<close>. The loop
  over the household, with its flag \<^verbatim>\<open>hasEligibleChild\<close> and its \<^verbatim>\<open>break\<close>, is the
  recursive function \<open>hasEligibleChild\<close>: it returns the value of the flag when the loop
  ends. Years are Go \<^verbatim>\<open>int\<close>s far from the bounds of the type, and their difference is
  taken in the integers.
\<close>

fun hasEligibleChild ::
  "(string \<Rightarrow> string) \<Rightarrow> gotime \<Rightarrow> Criteria \<Rightarrow> HouseholdMember list \<Rightarrow> bool" where
  "hasEligibleChild ulower now criteria [] = False"
| "hasEligibleChild ulower now criteria (member # rest) =
     (if Contains (ToLower ulower (Relation member)) ''son'' \<or>
         Contains (ToLower ulower (Relation member)) ''daughter''
      then (let age = Year now - Year (HouseholdMember.DateOfBirth member)
            in if age \<ge> 6 \<and> age \<le> 12 \<and> SchoolLevel (HasChildren criteria) = ''primary''
               then True
               else hasEligibleChild ulower now criteria rest)
      else hasEligibleChild ulower now criteria rest)"

definition isEligible :: "(string \<Rightarrow> string) \<Rightarrow> gotime \<Rightarrow> Applicant \<Rightarrow> Scheme \<Rightarrow> bool" where
  "isEligible ulower now applicant scheme =
     (let criteria = Criteria scheme in
      if Criteria.EmploymentStatus criteria \<noteq> '''' \<and>
         ToLower ulower (Criteria.EmploymentStatus criteria) \<noteq>
           ToLower ulower (Applicant.EmploymentStatus applicant)
      then False
      else if Criteria.MaritalStatus criteria \<noteq> '''' \<and>
         ToLower ulower (Criteria.MaritalStatus criteria) \<noteq>
           ToLower ulower (Applicant.MaritalStatus applicant)
      then False
      else if SchoolLevel (HasChildren criteria) \<noteq> ''''
      then (if \<not> hasEligibleChild ulower now criteria (Household applicant) then False else True)
      else True)"

section \<open>The store\<close>

text \<open>
  The database is three tables, each a list of rows. A row of \<open>applicants\<close> is the
  applicant as \<^verbatim>\<open>ApplicantRepository.GetByID\<close> loads it, household included; a row of
  \<open>schemes\<close> is the scheme with its criteria parsed and its benefits loaded; a row of
  \<open>applications\<close> holds the columns that the queries of
  app/models/application_repository.go name (\<open>decision_date\<close> and \<open>notes\<close> may be NULL).
  Identifiers are compared as byte strings. The database is reliable: a query or a
  statement that the driver reports as failed is outside the model, so the branches of the
  source that only wrap and return such an error have no counterpart here. The
  constraints that app/database/schema.sql declares (primary keys, foreign keys, the ENUM
  columns) are not enforced by the model: an INSERT appends its row and a status is stored
  as it is given. The schema makes \<open>decision_date\<close> and \<open>notes\<close> the nullable columns.
\<close>

record ApplicationRow =
  col_id :: string
  col_applicant_id :: string
  col_scheme_id :: string
  col_status :: string
  col_application_date :: gotime
  col_decision_date :: "gotime option"
  col_notes :: "string option"
  col_created_at :: gotime
  col_updated_at :: gotime

record Database =
  applicants :: "Applicant list"
  schemes :: "Scheme list"
  applications :: "ApplicationRow list"

text \<open>An \<^verbatim>\<open>error\<close> is its message, as \<^verbatim>\<open>fmt.Errorf\<close> builds it.\<close>

type_synonym error = string

subsection \<open>ApplicantRepository and SchemeRepository\<close>

definition ApplicantRepository_GetByID :: "Database \<Rightarrow> string \<Rightarrow> Applicant option" where
  "ApplicantRepository_GetByID db id' = find (\<lambda>a. Applicant.ID a = id') (applicants db)"

definition SchemeRepository_GetByID :: "Database \<Rightarrow> string \<Rightarrow> Scheme option" where
  "SchemeRepository_GetByID db id' = find (\<lambda>s. Scheme.ID s = id') (schemes db)"

text \<open>
  \<^verbatim>\<open>GetAll\<close> selects every scheme \<^verbatim>\<open>ORDER BY name ASC\<close>: the rows sorted by name, in the
  byte order of the names, rows of equal name in table order.
\<close>

definition SchemeRepository_GetAll :: "Database \<Rightarrow> Scheme list" where
  "SchemeRepository_GetAll db = sort_key Scheme.Name (schemes db)"

text \<open>
  The loop of \<^verbatim>\<open>GetEligibleSchemes\<close> over the schemes; \<open>eligibleSchemes\<close> is the slice it
  appends to.
\<close>

fun eligibleLoop ::
  "(string \<Rightarrow> string) \<Rightarrow> gotime \<Rightarrow> Applicant \<Rightarrow> Scheme list \<Rightarrow> Scheme list \<Rightarrow> Scheme list"
  where
  "eligibleLoop ulower now applicant [] eligibleSchemes = eligibleSchemes"
| "eligibleLoop ulower now applicant (scheme # rest) eligibleSchemes =
     (if isEligible ulower now applicant scheme
      then eligibleLoop ulower now applicant rest (eligibleSchemes @ [scheme])
      else eligibleLoop ulower now applicant rest eligibleSchemes)"

definition GetEligibleSchemes ::
  "(string \<Rightarrow> string) \<Rightarrow> Database \<Rightarrow> gotime \<Rightarrow> string \<Rightarrow> error + Scheme list" where
  "GetEligibleSchemes ulower db now applicantID =
     (case ApplicantRepository_GetByID db applicantID of
        None \<Rightarrow> Inl (''applicant not found: '' @ applicantID)
      | Some applicant \<Rightarrow> Inr (eligibleLoop ulower now applicant (SchemeRepository_GetAll db) []))"

subsection \<open>ApplicationRepository\<close>

definition scanApplication :: "Database \<Rightarrow> ApplicationRow \<Rightarrow> Application" where
  "scanApplication db r =
     \<lparr>Application.ID = col_id r,
      ApplicantID = col_applicant_id r,
      SchemeID = col_scheme_id r,
      Status = col_status r,
      ApplicationDate = col_application_date r,
      DecisionDate = col_decision_date r,
      Notes = (case col_notes r of None \<Rightarrow> '''' | Some n \<Rightarrow> n),
      CreatedAt = col_created_at r,
      UpdatedAt = col_updated_at r,
      Applicant = ApplicantRepository_GetByID db (col_applicant_id r),
      Scheme = SchemeRepository_GetByID db (col_scheme_id r)\<rparr>"

definition ApplicationRepository_GetByID :: "Database \<Rightarrow> string \<Rightarrow> Application option" where
  "ApplicationRepository_GetByID db id' =
     (case find (\<lambda>r. col_id r = id') (applications db) of
        None \<Rightarrow> None
      | Some r \<Rightarrow> Some (scanApplication db r))"

text \<open>
  \<^verbatim>\<open>Create\<close> returns the store, the application behind the pointer \<open>a\<close> as the call
  leaves it, and the error (\<open>None\<close> for nil). \<open>newid\<close> is what \<^verbatim>\<open>uuid.New().String()\<close>
  returns. The INSERT names no \<open>decision_date\<close>, which is NULL in the new row.
\<close>

definition ApplicationRepository_Create ::
  "(string \<Rightarrow> string) \<Rightarrow> Database \<Rightarrow> gotime \<Rightarrow> string \<Rightarrow> Application \<Rightarrow>
     Database \<times> Application \<times> error option" where
  "ApplicationRepository_Create ulower db now newid a =
     (case ApplicantRepository_GetByID db (Application.ApplicantID a) of
        None \<Rightarrow> (db, a, Some (''applicant not found: '' @ Application.ApplicantID a))
      | Some applicant \<Rightarrow>
         (case SchemeRepository_GetByID db (Application.SchemeID a) of
            None \<Rightarrow> (db, a, Some (''scheme not found: '' @ Application.SchemeID a))
          | Some scheme \<Rightarrow>
             if \<not> isEligible ulower now applicant scheme
             then (db, a, Some ''applicant is not eligible for this scheme'')
             else
               let a1 = (if Application.ID a = '''' then a\<lparr>Application.ID := newid\<rparr> else a);
                   a2 = a1\<lparr>Application.CreatedAt := now, Application.UpdatedAt := now,
                           ApplicationDate := now\<rparr>;
                   a3 = (if Application.Status a2 = ''''
                         then a2\<lparr>Application.Status := ''pending''\<rparr> else a2);
                   row = \<lparr>col_id = Application.ID a3,
                          col_applicant_id = Application.ApplicantID a3,
                          col_scheme_id = Application.SchemeID a3,
                          col_status = Application.Status a3,
                          col_application_date = ApplicationDate a3,
                          col_decision_date = None,
                          col_notes = Some (Application.Notes a3),
                          col_created_at = Application.CreatedAt a3,
                          col_updated_at = Application.UpdatedAt a3\<rparr>
               in (db\<lparr>applications := applications db @ [row]\<rparr>, a3, None)))"

text \<open>\<^verbatim>\<open>Update\<close> and \<^verbatim>\<open>UpdateStatus\<close>: an UPDATE of every row whose id matches.\<close>

definition ApplicationRepository_Update ::
  "Database \<Rightarrow> gotime \<Rightarrow> Application \<Rightarrow> Database \<times> Application" where
  "ApplicationRepository_Update db now a =
     (let a' = a\<lparr>Application.UpdatedAt := now\<rparr>;
          decisionDate = (case DecisionDate a' of Some t \<Rightarrow> Some t | None \<Rightarrow> None)
      in (db\<lparr>applications :=
               map (\<lambda>r. if col_id r = Application.ID a'
                        then r\<lparr>col_status := Application.Status a',
                               col_decision_date := decisionDate,
                               col_notes := Some (Application.Notes a'),
                               col_updated_at := Application.UpdatedAt a'\<rparr>
                        else r) (applications db)\<rparr>, a'))"

definition ApplicationRepository_UpdateStatus ::
  "Database \<Rightarrow> gotime \<Rightarrow> string \<Rightarrow> string \<Rightarrow> Database" where
  "ApplicationRepository_UpdateStatus db now id' status =
     (let decisionDate = (if status = ''approved'' \<or> status = ''rejected''
                          then Some now else None)
      in db\<lparr>applications :=
              map (\<lambda>r. if col_id r = id'
                       then r\<lparr>col_status := status,
                              col_decision_date := decisionDate,
                              col_updated_at := now\<rparr>
                       else r) (applications db)\<rparr>)"

section \<open>The handlers of app/handlers/application_handler.go\<close>

text \<open>
  A handler takes the store, the clock and the request, and returns the store and what it
  wrote to the client: an error with its status code and text, or a JSON body with its
  status code. The body of the request is the decoded struct, or the message of the
  decoding error. The JSON body is built from the application with its applicant and its
  scheme; where the handler dereferences a nil pointer to build it, the outcome is
  \<open>Panic\<close>.
\<close>

datatype response = HttpError nat string | HttpJSON nat Application | Panic

record UpdateRequest =
  Status :: string
  Notes :: string

definition zeroTime :: gotime where
  "zeroTime = \<lparr>Year = 1, Instant = 0\<rparr>"

definition respond :: "nat \<Rightarrow> Application option \<Rightarrow> response" where
  "respond code app =
     (case app of
        None \<Rightarrow> Panic
      | Some a \<Rightarrow>
         (case Applicant a of
            None \<Rightarrow> Panic
          | Some _ \<Rightarrow> (case Scheme a of None \<Rightarrow> Panic | Some _ \<Rightarrow> HttpJSON code a)))"

definition CreateApplication ::
  "(string \<Rightarrow> string) \<Rightarrow> Database \<Rightarrow> gotime \<Rightarrow> string \<Rightarrow> string + ApplicationRequest \<Rightarrow>
     Database \<times> response" where
  "CreateApplication ulower db now newid body =
     (case body of
        Inl err \<Rightarrow> (db, HttpError 400 (''Invalid request body: '' @ err))
      | Inr request \<Rightarrow>
         if ApplicationRequest.ApplicantID request = ''''
         then (db, HttpError 400 ''Applicant ID is required'')
         else if ApplicationRequest.SchemeID request = ''''
         then (db, HttpError 400 ''Scheme ID is required'')
         else
           (case ApplicantRepository_GetByID db (ApplicationRequest.ApplicantID request) of
              None \<Rightarrow> (db, HttpError 404 ''Applicant not found'')
            | Some applicant \<Rightarrow>
               (case SchemeRepository_GetByID db (ApplicationRequest.SchemeID request) of
                  None \<Rightarrow> (db, HttpError 404 ''Scheme not found'')
                | Some scheme \<Rightarrow>
                   let application =
                         \<lparr>Application.ID = '''',
                          ApplicantID = ApplicationRequest.ApplicantID request,
                          SchemeID = ApplicationRequest.SchemeID request,
                          Status = ''pending'',
                          ApplicationDate = zeroTime,
                          DecisionDate = None,
                          Notes = ApplicationRequest.Notes request,
                          CreatedAt = zeroTime,
                          UpdatedAt = zeroTime,
                          Applicant = None,
                          Scheme = None\<rparr>
                   in (case ApplicationRepository_Create ulower db now newid application of
                         (db', application', Some err) \<Rightarrow>
                           (db', HttpError 500 (''Failed to create application: '' @ err))
                       | (db', application', None) \<Rightarrow>
                           (db', respond 201
                              (ApplicationRepository_GetByID db' (Application.ID application')))))))"

definition UpdateApplication ::
  "Database \<Rightarrow> gotime \<Rightarrow> string \<Rightarrow> string + UpdateRequest \<Rightarrow> Database \<times> response" where
  "UpdateApplication db now id' body =
     (case ApplicationRepository_GetByID db id' of
        None \<Rightarrow> (db, HttpError 404 ''Application not found'')
      | Some existing \<Rightarrow>
         (case body of
            Inl err \<Rightarrow> (db, HttpError 400 (''Invalid request body: '' @ err))
          | Inr request \<Rightarrow>
             let existing1 = (if UpdateRequest.Status request \<noteq> ''''
                              then existing\<lparr>Application.Status := UpdateRequest.Status request\<rparr>
                              else existing);
                 existing2 = (if UpdateRequest.Notes request \<noteq> ''''
                              then existing1\<lparr>Application.Notes := UpdateRequest.Notes request\<rparr>
                              else existing1)
             in (case ApplicationRepository_Update db now existing2 of
                   (db', existing3) \<Rightarrow>
                     (db', respond 200
                        (ApplicationRepository_GetByID db' (Application.ID existing3))))))"

section \<open>Sample data\<close>

text \<open>
  Concrete applicants, schemes and a store, on which the theorems below are instantiated.
  The store lists its schemes out of alphabetical order. Every string of the samples is
  ASCII, so \<open>ToLower\<close> never consults the mapping of the other strings on them; the samples
  pass the identity, \<open>noUnicode\<close>, in its place.
\<close>

definition noUnicode :: "string \<Rightarrow> string" where
  "noUnicode s = s"

definition atYear :: "int \<Rightarrow> gotime" where
  "atYear y = \<lparr>Year = y, Instant = 0\<rparr>"

definition memberWith :: "string \<Rightarrow> int \<Rightarrow> HouseholdMember" where
  "memberWith relation born =
     \<lparr>HouseholdMember.ID = ''m1'', ApplicantID = ''a1'', Name = ''Mei'',
      EmploymentStatus = ''unemployed'', Sex = ''female'', DateOfBirth = atYear born,
      Relation = relation, CreatedAt = atYear 2025, UpdatedAt = atYear 2025\<rparr>"

definition applicantWith :: "string \<Rightarrow> string \<Rightarrow> HouseholdMember list \<Rightarrow> Applicant" where
  "applicantWith employment marital household =
     \<lparr>Applicant.ID = ''a1'', Name = ''Tan'', EmploymentStatus = employment, Sex = ''male'',
      DateOfBirth = atYear 1985, MaritalStatus = marital, CreatedAt = atYear 2025,
      UpdatedAt = atYear 2025, Household = household\<rparr>"

definition schemeWith :: "string \<Rightarrow> string \<Rightarrow> string \<Rightarrow> string \<Rightarrow> string \<Rightarrow> Scheme" where
  "schemeWith id' name employment marital level =
     \<lparr>Scheme.ID = id', Name = name, Description = '''',
      Criteria = \<lparr>EmploymentStatus = employment, MaritalStatus = marital,
                  HasChildren = \<lparr>SchoolLevel = level\<rparr>\<rparr>,
      CreatedAt = atYear 2025, UpdatedAt = atYear 2025, Benefits = []\<rparr>"

definition sampleRow :: ApplicationRow where
  "sampleRow =
     \<lparr>col_id = ''app1'', col_applicant_id = ''a1'', col_scheme_id = ''s1'',
      col_status = ''pending'', col_application_date = atYear 2025,
      col_decision_date = None, col_notes = Some ''first request'',
      col_created_at = atYear 2025, col_updated_at = atYear 2025\<rparr>"

definition sampleDB :: Database where
  "sampleDB =
     \<lparr>applicants = [applicantWith ''unemployed'' ''single'' [memberWith ''daughter'' 2017]],
      schemes = [schemeWith ''s2'' ''School Support'' ''unemployed'' '''' ''primary'',
                 schemeWith ''s1'' ''Jobseeker Aid'' ''Unemployed'' '''' '''',
                 schemeWith ''s3'' ''Couples Grant'' '''' ''married'' ''''],
      applications = [sampleRow]\<rparr>"

definition sampleApplication :: "string \<Rightarrow> Application" where
  "sampleApplication schemeID =
     \<lparr>Application.ID = '''', ApplicantID = ''a1'', SchemeID = schemeID, Status = '''',
      ApplicationDate = zeroTime, DecisionDate = None, Notes = ''please'',
      CreatedAt = zeroTime, UpdatedAt = zeroTime, Applicant = None, Scheme = None\<rparr>"

section \<open>Properties of the evaluator\<close>

lemma Contains_iff: "Contains s substr \<longleftrightarrow> (\<exists>p q. s = p @ substr @ q)"
proof (induction s)
  case Nil
  then show ?case by auto
next
  case (Cons c cs)
  have "take (length substr) (c # cs) = substr \<longleftrightarrow> (\<exists>q. c # cs = substr @ q)"
    by (metis append_eq_conv_conj append_take_drop_id)
  moreover have "(\<exists>p q. c # cs = p @ substr @ q) \<longleftrightarrow>
      (\<exists>q. c # cs = substr @ q) \<or> (\<exists>p q. cs = p @ substr @ q)"
  proof
    assume "\<exists>p q. c # cs = p @ substr @ q"
    then obtain p q where pq: "c # cs = p @ substr @ q" by blast
    show "(\<exists>q. c # cs = substr @ q) \<or> (\<exists>p q. cs = p @ substr @ q)"
    proof (cases p)
      case Nil
      with pq show ?thesis by auto
    next
      case (Cons x p')
      with pq have "cs = p' @ substr @ q" by simp
      then show ?thesis by blast
    qed
  next
    assume "(\<exists>q. c # cs = substr @ q) \<or> (\<exists>p q. cs = p @ substr @ q)"
    then show "\<exists>p q. c # cs = p @ substr @ q"
    proof
      assume "\<exists>q. c # cs = substr @ q"
      then obtain q where "c # cs = [] @ substr @ q" by auto
      then show ?thesis by blast
    next
      assume "\<exists>p q. cs = p @ substr @ q"
      then obtain p q where "c # cs = (c # p) @ substr @ q" by auto
      then show ?thesis by blast
    qed
  qed
  ultimately show ?case using Cons.IH by simp
qed

lemma isEligible_clauses:
  "isEligible ulower now applicant scheme \<longleftrightarrow>
     (Criteria.EmploymentStatus (Criteria scheme) = '''' \<or>
      ToLower ulower (Criteria.EmploymentStatus (Criteria scheme)) =
        ToLower ulower (Applicant.EmploymentStatus applicant)) \<and>
     (Criteria.MaritalStatus (Criteria scheme) = '''' \<or>
      ToLower ulower (Criteria.MaritalStatus (Criteria scheme)) =
        ToLower ulower (Applicant.MaritalStatus applicant)) \<and>
     (SchoolLevel (HasChildren (Criteria scheme)) = '''' \<or>
      hasEligibleChild ulower now (Criteria scheme) (Household applicant))"
  by (auto simp: isEligible_def Let_def)

lemma ToLower_samples:
  "ToLower ulower ''daughter'' = ''daughter''"
  "ToLower ulower ''Step-Son'' = ''step-son''"
  "ToLower ulower ''Unemployed'' = ''unemployed''"
  "ToLower ulower ''unemployed'' = ''unemployed''"
  "ToLower ulower ''employed'' = ''employed''"
  "ToLower ulower ''single'' = ''single''"
  "ToLower ulower ''married'' = ''married''"
  "ToLower ulower ''Single'' = ''single''"
  by code_simp+

lemma Contains_samples:
  "Contains ''daughter'' ''daughter''"
  "Contains ''step-son'' ''son''"
  by code_simp+

lemma hasEligibleChild_not_primary:
  "SchoolLevel (HasChildren criteria) \<noteq> ''primary'' \<Longrightarrow>
     \<not> hasEligibleChild ulower now criteria household"
  by (induction household) simp_all

lemma hasEligibleChild_primary_iff:
  assumes "SchoolLevel (HasChildren criteria) = ''primary''"
  shows "hasEligibleChild ulower now criteria household \<longleftrightarrow>
     (\<exists>m \<in> set household.
        (Contains (ToLower ulower (Relation m)) ''son'' \<or>
         Contains (ToLower ulower (Relation m)) ''daughter'') \<and>
        6 \<le> Year now - Year (HouseholdMember.DateOfBirth m) \<and>
        Year now - Year (HouseholdMember.DateOfBirth m) \<le> 12)"
  using assms by (induction household) (auto simp: Let_def)

text \<open>
  C7. A scheme whose criteria are all empty (no employment status, no marital status, no
  school level) accepts every applicant, at every time.
\<close>

theorem isEligible_empty_criteria:
  assumes "Criteria.EmploymentStatus (Criteria scheme) = ''''"
    and "Criteria.MaritalStatus (Criteria scheme) = ''''"
    and "SchoolLevel (HasChildren (Criteria scheme)) = ''''"
  shows "isEligible ulower now applicant scheme"
  using assms by (simp add: isEligible_def)

theorem isEligible_empty_criteria_witness:
  "isEligible noUnicode (atYear 2026) (applicantWith ''employed'' ''married'' [])
     (schemeWith ''s0'' ''Open'' '''' '''' '''')"
  using isEligible_empty_criteria
    [of "schemeWith ''s0'' ''Open'' '''' '''' ''''" noUnicode "atYear 2026"
        "applicantWith ''employed'' ''married'' []"]
  by (simp add: schemeWith_def)

text \<open>
  C5. When the school level of the criteria is set to anything but \<open>primary\<close>, no
  household member matches the children clause, whatever the household, and
  \<open>isEligible\<close> returns false for every applicant.
\<close>

theorem isEligible_unhandled_school_level:
  assumes "SchoolLevel (HasChildren (Criteria scheme)) \<noteq> ''''"
    and "SchoolLevel (HasChildren (Criteria scheme)) \<noteq> ''primary''"
  shows "\<not> hasEligibleChild ulower now (Criteria scheme) household \<and>
         \<not> isEligible ulower now applicant scheme"
  using assms hasEligibleChild_not_primary [of "Criteria scheme"]
  by (simp add: isEligible_clauses)

theorem isEligible_unhandled_school_level_witness:
  "\<not> hasEligibleChild noUnicode (atYear 2026)
        (Criteria (schemeWith ''s4'' ''Teens'' '''' '''' ''secondary''))
        [memberWith ''daughter'' 2017] \<and>
   \<not> isEligible noUnicode (atYear 2026) (applicantWith ''unemployed'' ''single'' [memberWith ''daughter'' 2017])
        (schemeWith ''s4'' ''Teens'' '''' '''' ''secondary'')"
  using isEligible_unhandled_school_level
    [of "schemeWith ''s4'' ''Teens'' '''' '''' ''secondary''" noUnicode "atYear 2026"
        "[memberWith ''daughter'' 2017]"
        "applicantWith ''unemployed'' ''single'' [memberWith ''daughter'' 2017]"]
  by (simp add: schemeWith_def)

text \<open>
  C4. When the school level of the criteria is \<open>primary\<close>, the children clause holds
  exactly when some household member has a relation that contains \<open>son\<close> or \<open>daughter\<close>
  after lower-casing and an age, the current year minus the year of birth, from 6 to 12
  inclusive; \<open>isEligible\<close> is the conjunction of the employment clause, the marital
  clause and that. A \<open>daughter\<close> or a \<open>Step-Son\<close> of age 6 or 12 alone satisfies the
  clause, one of age 5 or 13 alone does not, and the empty household fails it.
\<close>

theorem isEligible_primary_children_clause:
  assumes "SchoolLevel (HasChildren (Criteria scheme)) = ''primary''"
  shows
    "(isEligible ulower now applicant scheme \<longleftrightarrow>
        (Criteria.EmploymentStatus (Criteria scheme) = '''' \<or>
         ToLower ulower (Criteria.EmploymentStatus (Criteria scheme)) =
           ToLower ulower (Applicant.EmploymentStatus applicant)) \<and>
        (Criteria.MaritalStatus (Criteria scheme) = '''' \<or>
         ToLower ulower (Criteria.MaritalStatus (Criteria scheme)) =
           ToLower ulower (Applicant.MaritalStatus applicant)) \<and>
        (\<exists>m \<in> set (Household applicant).
           (Contains (ToLower ulower (Relation m)) ''son'' \<or>
            Contains (ToLower ulower (Relation m)) ''daughter'') \<and>
           6 \<le> Year now - Year (HouseholdMember.DateOfBirth m) \<and>
           Year now - Year (HouseholdMember.DateOfBirth m) \<le> 12)) \<and>
     (\<forall>m. Relation m = ''daughter'' \<or> Relation m = ''Step-Son'' \<longrightarrow>
        (Year now - Year (HouseholdMember.DateOfBirth m) = 6 \<or>
         Year now - Year (HouseholdMember.DateOfBirth m) = 12 \<longrightarrow>
           hasEligibleChild ulower now (Criteria scheme) [m]) \<and>
        (Year now - Year (HouseholdMember.DateOfBirth m) = 5 \<or>
         Year now - Year (HouseholdMember.DateOfBirth m) = 13 \<longrightarrow>
           \<not> hasEligibleChild ulower now (Criteria scheme) [m])) \<and>
     \<not> hasEligibleChild ulower now (Criteria scheme) []"
proof -
  have a: "SchoolLevel (HasChildren (Criteria scheme)) \<noteq> ''''"
    using assms by simp
  have 1: "isEligible ulower now applicant scheme \<longleftrightarrow>
        (Criteria.EmploymentStatus (Criteria scheme) = '''' \<or>
         ToLower ulower (Criteria.EmploymentStatus (Criteria scheme)) =
           ToLower ulower (Applicant.EmploymentStatus applicant)) \<and>
        (Criteria.MaritalStatus (Criteria scheme) = '''' \<or>
         ToLower ulower (Criteria.MaritalStatus (Criteria scheme)) =
           ToLower ulower (Applicant.MaritalStatus applicant)) \<and>
        (\<exists>m \<in> set (Household applicant).
           (Contains (ToLower ulower (Relation m)) ''son'' \<or>
            Contains (ToLower ulower (Relation m)) ''daughter'') \<and>
           6 \<le> Year now - Year (HouseholdMember.DateOfBirth m) \<and>
           Year now - Year (HouseholdMember.DateOfBirth m) \<le> 12)"
    unfolding isEligible_clauses
    using a hasEligibleChild_primary_iff [OF assms, of ulower now "Household applicant"] by simp
  have 2: "\<forall>m. Relation m = ''daughter'' \<or> Relation m = ''Step-Son'' \<longrightarrow>
        (Year now - Year (HouseholdMember.DateOfBirth m) = 6 \<or>
         Year now - Year (HouseholdMember.DateOfBirth m) = 12 \<longrightarrow>
           hasEligibleChild ulower now (Criteria scheme) [m]) \<and>
        (Year now - Year (HouseholdMember.DateOfBirth m) = 5 \<or>
         Year now - Year (HouseholdMember.DateOfBirth m) = 13 \<longrightarrow>
           \<not> hasEligibleChild ulower now (Criteria scheme) [m])"
    using assms by (auto simp: ToLower_samples Contains_samples)
  have 3: "\<not> hasEligibleChild ulower now (Criteria scheme) []"
    by simp
  show ?thesis
    by (rule conjI [OF 1 conjI [OF 2 3]])
qed

theorem isEligible_primary_children_clause_witness:
  "isEligible noUnicode (atYear 2026)
     (applicantWith ''unemployed'' ''single'' [memberWith ''Step-Son'' 2014])
     (schemeWith ''s2'' ''School Support'' ''unemployed'' '''' ''primary'') \<and>
   hasEligibleChild noUnicode (atYear 2026)
     (Criteria (schemeWith ''s2'' ''School Support'' ''unemployed'' '''' ''primary''))
     [memberWith ''daughter'' 2020] \<and>
   \<not> hasEligibleChild noUnicode (atYear 2026)
     (Criteria (schemeWith ''s2'' ''School Support'' ''unemployed'' '''' ''primary''))
     [memberWith ''daughter'' 2021] \<and>
   \<not> hasEligibleChild noUnicode (atYear 2026)
     (Criteria (schemeWith ''s2'' ''School Support'' ''unemployed'' '''' ''primary''))
     [memberWith ''daughter'' 2013]"
  using isEligible_primary_children_clause
    [of "schemeWith ''s2'' ''School Support'' ''unemployed'' '''' ''primary''" noUnicode
        "atYear 2026"
        "applicantWith ''unemployed'' ''single'' [memberWith ''Step-Son'' 2014]"]
  by (simp add: schemeWith_def applicantWith_def memberWith_def atYear_def
      ToLower_samples Contains_samples)

section \<open>Properties of the status clauses, the clock and the listing\<close>

lemma hasEligibleChild_criteria_cong:
  "HasChildren c1 = HasChildren c2 \<Longrightarrow>
     hasEligibleChild ulower now c1 household = hasEligibleChild ulower now c2 household"
  by (induction household) simp_all

lemma hasEligibleChild_same_year:
  "Year now1 = Year now2 \<Longrightarrow>
     hasEligibleChild ulower now1 criteria household = hasEligibleChild ulower now2 criteria household"
  by (induction household) simp_all

lemma isEligible_same_year:
  "Year now1 = Year now2 \<Longrightarrow> isEligible ulower now1 applicant scheme = isEligible ulower now2 applicant scheme"
  using hasEligibleChild_same_year [of now1 now2] by (simp add: isEligible_clauses)

lemma eligibleLoop_filter:
  "eligibleLoop ulower now applicant ss acc = acc @ filter (isEligible ulower now applicant) ss"
  by (induction ss arbitrary: acc) simp_all

lemma sample_GetAll:
  "SchemeRepository_GetAll sampleDB =
     [schemeWith ''s3'' ''Couples Grant'' '''' ''married'' '''',
      schemeWith ''s1'' ''Jobseeker Aid'' ''Unemployed'' '''' '''',
      schemeWith ''s2'' ''School Support'' ''unemployed'' '''' ''primary'']"
  by code_simp

lemma sample_applicant:
  "ApplicantRepository_GetByID sampleDB ''a1'' =
     Some (applicantWith ''unemployed'' ''single'' [memberWith ''daughter'' 2017])"
  "ApplicantRepository_GetByID sampleDB ''a9'' = None"
  by (simp_all add: ApplicantRepository_GetByID_def sampleDB_def applicantWith_def)

lemma sample_eligible:
  "GetEligibleSchemes ulower sampleDB now ''a1'' =
     Inr (filter (isEligible ulower now (applicantWith ''unemployed'' ''single'' [memberWith ''daughter'' 2017]))
       [schemeWith ''s3'' ''Couples Grant'' '''' ''married'' '''',
        schemeWith ''s1'' ''Jobseeker Aid'' ''Unemployed'' '''' '''',
        schemeWith ''s2'' ''School Support'' ''unemployed'' '''' ''primary''])"
  by (simp add: GetEligibleSchemes_def sample_applicant sample_GetAll eligibleLoop_filter)

lemma sample_eligibility:
  "Year now = 2026 \<Longrightarrow> \<not> isEligible ulower now (applicantWith ''unemployed'' ''single'' [memberWith ''daughter'' 2017])
       (schemeWith ''s3'' ''Couples Grant'' '''' ''married'' '''')"
  "Year now = 2026 \<Longrightarrow> isEligible ulower now (applicantWith ''unemployed'' ''single'' [memberWith ''daughter'' 2017])
       (schemeWith ''s1'' ''Jobseeker Aid'' ''Unemployed'' '''' '''')"
  "Year now = 2026 \<Longrightarrow> isEligible ulower now (applicantWith ''unemployed'' ''single'' [memberWith ''daughter'' 2017])
       (schemeWith ''s2'' ''School Support'' ''unemployed'' '''' ''primary'')"
  by (simp_all add: isEligible_clauses schemeWith_def applicantWith_def memberWith_def atYear_def
      ToLower_samples Contains_samples)

lemma ToLower_not_ASCII:
  "\<not> isASCII x \<Longrightarrow> ToLower ulower x = ulower x"
  by (simp add: ToLower_def)

lemma isEligible_status_folded_by_library:
  assumes "\<not> isASCII (Criteria.EmploymentStatus (Criteria scheme))"
    and "\<not> isASCII (Applicant.EmploymentStatus applicant)"
    and "ulower (Criteria.EmploymentStatus (Criteria scheme)) =
         ulower (Applicant.EmploymentStatus applicant)"
    and "Criteria.MaritalStatus (Criteria scheme) = ''''"
    and "SchoolLevel (HasChildren (Criteria scheme)) = ''''"
  shows "isEligible ulower now applicant scheme"
  using assms by (simp add: isEligible_clauses ToLower_not_ASCII)

text \<open>
  C6. Whenever the employment status of the criteria is set and its lower-case form, as
  \<^verbatim>\<open>strings.ToLower\<close> gives it, differs from that of the applicant's, \<open>isEligible\<close> returns
  false, whatever the other fields are; the same holds for the marital status. The
  comparison ignores case: \<open>Unemployed\<close> and \<open>unemployed\<close> have the same lower-case form,
  and on ASCII statuses the lower-case form is the byte-wise one. Replacing the status of
  the applicant by one with the same lower-case form, or a set status of the criteria by
  another set status with the same lower-case form, never changes the result. Two
  statuses that are not ASCII match when the mapping of the library gives them the same
  form (lemma \<open>isEligible_status_folded_by_library\<close> for the employment status).
\<close>

theorem isEligible_status_clauses:
  "(Criteria.EmploymentStatus (Criteria scheme) \<noteq> '''' \<and>
    ToLower ulower (Criteria.EmploymentStatus (Criteria scheme)) \<noteq>
      ToLower ulower (Applicant.EmploymentStatus applicant) \<longrightarrow>
      \<not> isEligible ulower now applicant scheme) \<and>
   (Criteria.MaritalStatus (Criteria scheme) \<noteq> '''' \<and>
    ToLower ulower (Criteria.MaritalStatus (Criteria scheme)) \<noteq>
      ToLower ulower (Applicant.MaritalStatus applicant) \<longrightarrow>
      \<not> isEligible ulower now applicant scheme) \<and>
   ToLower ulower ''Unemployed'' = ToLower ulower ''unemployed'' \<and>
   (\<forall>x. isASCII x \<longrightarrow> ToLower ulower x = map toLowerByte x) \<and>
   (\<forall>x y. ToLower ulower x = ToLower ulower y \<longrightarrow>
      isEligible ulower now (applicant\<lparr>Applicant.EmploymentStatus := x\<rparr>) scheme =
      isEligible ulower now (applicant\<lparr>Applicant.EmploymentStatus := y\<rparr>) scheme) \<and>
   (\<forall>x y. ToLower ulower x = ToLower ulower y \<longrightarrow>
      isEligible ulower now (applicant\<lparr>Applicant.MaritalStatus := x\<rparr>) scheme =
      isEligible ulower now (applicant\<lparr>Applicant.MaritalStatus := y\<rparr>) scheme) \<and>
   (\<forall>x y. x \<noteq> '''' \<and> y \<noteq> '''' \<and> ToLower ulower x = ToLower ulower y \<longrightarrow>
      isEligible ulower now applicant
        (scheme\<lparr>Criteria := (Criteria scheme)\<lparr>Criteria.EmploymentStatus := x\<rparr>\<rparr>) =
      isEligible ulower now applicant
        (scheme\<lparr>Criteria := (Criteria scheme)\<lparr>Criteria.EmploymentStatus := y\<rparr>\<rparr>)) \<and>
   (\<forall>x y. x \<noteq> '''' \<and> y \<noteq> '''' \<and> ToLower ulower x = ToLower ulower y \<longrightarrow>
      isEligible ulower now applicant
        (scheme\<lparr>Criteria := (Criteria scheme)\<lparr>Criteria.MaritalStatus := x\<rparr>\<rparr>) =
      isEligible ulower now applicant
        (scheme\<lparr>Criteria := (Criteria scheme)\<lparr>Criteria.MaritalStatus := y\<rparr>\<rparr>))"
proof -
  have 1: "Criteria.EmploymentStatus (Criteria scheme) \<noteq> '''' \<and>
    ToLower ulower (Criteria.EmploymentStatus (Criteria scheme)) \<noteq>
      ToLower ulower (Applicant.EmploymentStatus applicant) \<longrightarrow>
      \<not> isEligible ulower now applicant scheme"
    by (simp add: isEligible_clauses)
  have 2: "Criteria.MaritalStatus (Criteria scheme) \<noteq> '''' \<and>
    ToLower ulower (Criteria.MaritalStatus (Criteria scheme)) \<noteq>
      ToLower ulower (Applicant.MaritalStatus applicant) \<longrightarrow>
      \<not> isEligible ulower now applicant scheme"
    by (simp add: isEligible_clauses)
  have 3: "ToLower ulower ''Unemployed'' = ToLower ulower ''unemployed''"
    by (simp add: ToLower_samples)
  have 4: "\<forall>x. isASCII x \<longrightarrow> ToLower ulower x = map toLowerByte x"
    by (simp add: ToLower_def)
  have 5: "\<forall>x y. ToLower ulower x = ToLower ulower y \<longrightarrow>
      isEligible ulower now (applicant\<lparr>Applicant.EmploymentStatus := x\<rparr>) scheme =
      isEligible ulower now (applicant\<lparr>Applicant.EmploymentStatus := y\<rparr>) scheme"
    by (simp add: isEligible_clauses)
  have 6: "\<forall>x y. ToLower ulower x = ToLower ulower y \<longrightarrow>
      isEligible ulower now (applicant\<lparr>Applicant.MaritalStatus := x\<rparr>) scheme =
      isEligible ulower now (applicant\<lparr>Applicant.MaritalStatus := y\<rparr>) scheme"
    by (simp add: isEligible_clauses)
  have h: "\<And>c1 c2. HasChildren c1 = HasChildren c2 \<Longrightarrow>
      hasEligibleChild ulower now c1 (Household applicant) =
      hasEligibleChild ulower now c2 (Household applicant)"
    by (rule hasEligibleChild_criteria_cong)
  have 7: "\<forall>x y. x \<noteq> '''' \<and> y \<noteq> '''' \<and> ToLower ulower x = ToLower ulower y \<longrightarrow>
      isEligible ulower now applicant
        (scheme\<lparr>Criteria := (Criteria scheme)\<lparr>Criteria.EmploymentStatus := x\<rparr>\<rparr>) =
      isEligible ulower now applicant
        (scheme\<lparr>Criteria := (Criteria scheme)\<lparr>Criteria.EmploymentStatus := y\<rparr>\<rparr>)"
  proof (intro allI impI)
    fix x y :: string
    assume xy: "x \<noteq> '''' \<and> y \<noteq> '''' \<and> ToLower ulower x = ToLower ulower y"
    have "hasEligibleChild ulower now ((Criteria scheme)\<lparr>Criteria.EmploymentStatus := x\<rparr>)
            (Household applicant) =
          hasEligibleChild ulower now ((Criteria scheme)\<lparr>Criteria.EmploymentStatus := y\<rparr>)
            (Household applicant)"
      by (rule h) simp
    then show "isEligible ulower now applicant
        (scheme\<lparr>Criteria := (Criteria scheme)\<lparr>Criteria.EmploymentStatus := x\<rparr>\<rparr>) =
      isEligible ulower now applicant
        (scheme\<lparr>Criteria := (Criteria scheme)\<lparr>Criteria.EmploymentStatus := y\<rparr>\<rparr>)"
      using xy by (simp add: isEligible_clauses)
  qed
  have 8: "\<forall>x y. x \<noteq> '''' \<and> y \<noteq> '''' \<and> ToLower ulower x = ToLower ulower y \<longrightarrow>
      isEligible ulower now applicant
        (scheme\<lparr>Criteria := (Criteria scheme)\<lparr>Criteria.MaritalStatus := x\<rparr>\<rparr>) =
      isEligible ulower now applicant
        (scheme\<lparr>Criteria := (Criteria scheme)\<lparr>Criteria.MaritalStatus := y\<rparr>\<rparr>)"
  proof (intro allI impI)
    fix x y :: string
    assume xy: "x \<noteq> '''' \<and> y \<noteq> '''' \<and> ToLower ulower x = ToLower ulower y"
    have "hasEligibleChild ulower now ((Criteria scheme)\<lparr>Criteria.MaritalStatus := x\<rparr>)
            (Household applicant) =
          hasEligibleChild ulower now ((Criteria scheme)\<lparr>Criteria.MaritalStatus := y\<rparr>)
            (Household applicant)"
      by (rule h) simp
    then show "isEligible ulower now applicant
        (scheme\<lparr>Criteria := (Criteria scheme)\<lparr>Criteria.MaritalStatus := x\<rparr>\<rparr>) =
      isEligible ulower now applicant
        (scheme\<lparr>Criteria := (Criteria scheme)\<lparr>Criteria.MaritalStatus := y\<rparr>\<rparr>)"
      using xy by (simp add: isEligible_clauses)
  qed
  show ?thesis
    by (rule conjI [OF 1 conjI [OF 2 conjI [OF 3 conjI [OF 4 conjI [OF 5 conjI
         [OF 6 conjI [OF 7 8]]]]]]])
qed

theorem isEligible_status_clauses_witness:
  "\<not> isEligible noUnicode (atYear 2026) (applicantWith ''unemployed'' ''single'' [])
       (schemeWith ''s5'' ''Workers'' ''employed'' '''' '''') \<and>
   \<not> isEligible noUnicode (atYear 2026) (applicantWith ''unemployed'' ''single'' [])
       (schemeWith ''s3'' ''Couples Grant'' '''' ''married'' '''') \<and>
   isEligible noUnicode (atYear 2026) (applicantWith ''unemployed'' ''single'' [])
       (schemeWith ''s1'' ''Jobseeker Aid'' ''Unemployed'' '''' '''') \<and>
   isEligible noUnicode (atYear 2026) (applicantWith ''Unemployed'' ''Single'' [])
       (schemeWith ''s6'' ''Singles'' ''unemployed'' ''single'' '''')"
proof -
  have a: "\<not> isEligible noUnicode (atYear 2026) (applicantWith ''unemployed'' ''single'' [])
       (schemeWith ''s5'' ''Workers'' ''employed'' '''' '''')"
    using isEligible_status_clauses
      [of "schemeWith ''s5'' ''Workers'' ''employed'' '''' ''''" noUnicode
          "applicantWith ''unemployed'' ''single'' []" "atYear 2026"]
    by (simp add: schemeWith_def applicantWith_def ToLower_samples)
  have b: "\<not> isEligible noUnicode (atYear 2026) (applicantWith ''unemployed'' ''single'' [])
       (schemeWith ''s3'' ''Couples Grant'' '''' ''married'' '''')"
    using isEligible_status_clauses
      [of "schemeWith ''s3'' ''Couples Grant'' '''' ''married'' ''''" noUnicode
          "applicantWith ''unemployed'' ''single'' []" "atYear 2026"]
    by (simp add: schemeWith_def applicantWith_def ToLower_samples)
  have c: "isEligible noUnicode (atYear 2026) (applicantWith ''unemployed'' ''single'' [])
       (schemeWith ''s1'' ''Jobseeker Aid'' ''Unemployed'' '''' '''')"
    by (simp add: isEligible_clauses schemeWith_def applicantWith_def ToLower_samples)
  have d: "isEligible noUnicode (atYear 2026) (applicantWith ''Unemployed'' ''Single'' [])
       (schemeWith ''s6'' ''Singles'' ''unemployed'' ''single'' '''')"
    by (simp add: isEligible_clauses schemeWith_def applicantWith_def ToLower_samples)
  show ?thesis using a b c d by simp
qed

text \<open>
  C2, as stated: \<open>isEligible\<close> is a function of the applicant and the scheme alone. It is
  not: the same applicant and scheme are eligible in 2026 and not eligible in 2027, when
  the daughter born in 2014 turns 13.
\<close>

theorem isEligible_clock_counterexample:
  "isEligible noUnicode (atYear 2026)
     (applicantWith ''unemployed'' ''single'' [memberWith ''daughter'' 2014])
     (schemeWith ''s2'' ''School Support'' ''unemployed'' '''' ''primary'') \<and>
   \<not> isEligible noUnicode (atYear 2027)
     (applicantWith ''unemployed'' ''single'' [memberWith ''daughter'' 2014])
     (schemeWith ''s2'' ''School Support'' ''unemployed'' '''' ''primary'')"
  by (simp add: isEligible_clauses schemeWith_def applicantWith_def memberWith_def atYear_def
      ToLower_samples Contains_samples)

text \<open>
  C2, amended. \<open>isEligible\<close> is a function of the applicant, the scheme and the calendar
  year of the clock: two calls on equal inputs in the same year return the same boolean.
  \<open>GetEligibleSchemes\<close> writes nothing, and two calls on the same store in the same year
  return the same schemes in the same order.
\<close>

theorem isEligible_function_of_year:
  assumes "Year now1 = Year now2"
  shows "isEligible ulower now1 applicant scheme = isEligible ulower now2 applicant scheme \<and>
         GetEligibleSchemes ulower db now1 applicantID = GetEligibleSchemes ulower db now2 applicantID"
proof -
  have "isEligible ulower now1 = isEligible ulower now2"
    using isEligible_same_year [OF assms] by (intro ext)
  then show ?thesis
    by (simp add: GetEligibleSchemes_def eligibleLoop_filter split: option.split)
qed

theorem isEligible_function_of_year_witness:
  "Year (atYear 2026) = Year \<lparr>Year = 2026, Instant = 86400\<rparr> \<and>
   isEligible noUnicode (atYear 2026)
     (applicantWith ''unemployed'' ''single'' [memberWith ''daughter'' 2017])
     (schemeWith ''s2'' ''School Support'' ''unemployed'' '''' ''primary'') =
   isEligible noUnicode \<lparr>Year = 2026, Instant = 86400\<rparr>
     (applicantWith ''unemployed'' ''single'' [memberWith ''daughter'' 2017])
     (schemeWith ''s2'' ''School Support'' ''unemployed'' '''' ''primary'') \<and>
   GetEligibleSchemes noUnicode sampleDB (atYear 2026) ''a1'' =
     GetEligibleSchemes noUnicode sampleDB \<lparr>Year = 2026, Instant = 86400\<rparr> ''a1'' \<and>
   GetEligibleSchemes noUnicode sampleDB (atYear 2026) ''a1'' =
     Inr [schemeWith ''s1'' ''Jobseeker Aid'' ''Unemployed'' '''' '''',
          schemeWith ''s2'' ''School Support'' ''unemployed'' '''' ''primary'']"
proof -
  have y: "Year (atYear 2026) = Year \<lparr>Year = 2026, Instant = 86400\<rparr>"
    by (simp add: atYear_def)
  have "Year (atYear 2026) = 2026" by (simp add: atYear_def)
  then have "GetEligibleSchemes noUnicode sampleDB (atYear 2026) ''a1'' =
     Inr [schemeWith ''s1'' ''Jobseeker Aid'' ''Unemployed'' '''' '''',
          schemeWith ''s2'' ''School Support'' ''unemployed'' '''' ''primary'']"
    by (simp add: sample_eligible sample_eligibility)
  then show ?thesis
    using y isEligible_function_of_year
      [OF y, of noUnicode
         "applicantWith ''unemployed'' ''single'' [memberWith ''daughter'' 2017]"
         "schemeWith ''s2'' ''School Support'' ''unemployed'' '''' ''primary''"
         sampleDB "''a1''"]
    by simp
qed

text \<open>
  C8. \<open>GetEligibleSchemes\<close> fails with the error \<open>applicant not found\<close> when no applicant
  of the store has the identifier. Otherwise the applicant is found, and the result is the
  listing of \<open>GetAll\<close> filtered by \<open>isEligible\<close> for that applicant, in the order of the
  listing; the listing holds every scheme of the store once, sorted by name.
\<close>

theorem GetEligibleSchemes_filter:
  "(applicantID \<notin> Applicant.ID ` set (applicants db) \<longrightarrow>
      GetEligibleSchemes ulower db now applicantID = Inl (''applicant not found: '' @ applicantID)) \<and>
   (\<forall>applicant. ApplicantRepository_GetByID db applicantID = Some applicant \<longrightarrow>
      GetEligibleSchemes ulower db now applicantID =
        Inr (filter (isEligible ulower now applicant) (SchemeRepository_GetAll db))) \<and>
   (applicantID \<in> Applicant.ID ` set (applicants db) \<longrightarrow>
      (\<exists>applicant. ApplicantRepository_GetByID db applicantID = Some applicant)) \<and>
   sorted (map Scheme.Name (SchemeRepository_GetAll db)) \<and>
   mset (SchemeRepository_GetAll db) = mset (schemes db)"
proof -
  have 1: "applicantID \<notin> Applicant.ID ` set (applicants db) \<longrightarrow>
      GetEligibleSchemes ulower db now applicantID = Inl (''applicant not found: '' @ applicantID)"
  proof
    assume "applicantID \<notin> Applicant.ID ` set (applicants db)"
    then have "ApplicantRepository_GetByID db applicantID = None"
      by (auto simp: ApplicantRepository_GetByID_def find_None_iff)
    then show "GetEligibleSchemes ulower db now applicantID = Inl (''applicant not found: '' @ applicantID)"
      by (simp add: GetEligibleSchemes_def)
  qed
  have 2: "\<forall>applicant. ApplicantRepository_GetByID db applicantID = Some applicant \<longrightarrow>
      GetEligibleSchemes ulower db now applicantID =
        Inr (filter (isEligible ulower now applicant) (SchemeRepository_GetAll db))"
    by (simp add: GetEligibleSchemes_def eligibleLoop_filter)
  have 3: "applicantID \<in> Applicant.ID ` set (applicants db) \<longrightarrow>
      (\<exists>applicant. ApplicantRepository_GetByID db applicantID = Some applicant)"
  proof
    assume "applicantID \<in> Applicant.ID ` set (applicants db)"
    then have "ApplicantRepository_GetByID db applicantID \<noteq> None"
      by (auto simp: ApplicantRepository_GetByID_def find_None_iff)
    then show "\<exists>applicant. ApplicantRepository_GetByID db applicantID = Some applicant"
      by blast
  qed
  have 4: "sorted (map Scheme.Name (SchemeRepository_GetAll db))"
    by (simp add: SchemeRepository_GetAll_def)
  have 5: "mset (SchemeRepository_GetAll db) = mset (schemes db)"
    by (simp add: SchemeRepository_GetAll_def)
  show ?thesis
    by (rule conjI [OF 1 conjI [OF 2 conjI [OF 3 conjI [OF 4 5]]]])
qed

theorem GetEligibleSchemes_filter_witness:
  "GetEligibleSchemes noUnicode sampleDB (atYear 2026) ''a9'' = Inl ''applicant not found: a9'' \<and>
   GetEligibleSchemes noUnicode sampleDB (atYear 2026) ''a1'' =
     Inr [schemeWith ''s1'' ''Jobseeker Aid'' ''Unemployed'' '''' '''',
          schemeWith ''s2'' ''School Support'' ''unemployed'' '''' ''primary'']"
proof -
  have y: "Year (atYear 2026) = 2026" by (simp add: atYear_def)
  have a: "''a9'' \<notin> Applicant.ID ` set (applicants sampleDB)"
    by (simp add: sampleDB_def applicantWith_def)
  show ?thesis
    using a GetEligibleSchemes_filter [of "''a9''" sampleDB noUnicode "atYear 2026"]
      GetEligibleSchemes_filter [of "''a1''" sampleDB noUnicode "atYear 2026"]
    by (simp add: sample_applicant sample_GetAll sample_eligibility [OF y])
qed

section \<open>Properties of the gated creation\<close>

lemma sample_scheme:
  "SchemeRepository_GetByID sampleDB ''s3'' =
     Some (schemeWith ''s3'' ''Couples Grant'' '''' ''married'' '''')"
  "SchemeRepository_GetByID sampleDB ''s2'' =
     Some (schemeWith ''s2'' ''School Support'' ''unemployed'' '''' ''primary'')"
  "SchemeRepository_GetByID sampleDB ''s1'' =
     Some (schemeWith ''s1'' ''Jobseeker Aid'' ''Unemployed'' '''' '''')"
  by (simp_all add: SchemeRepository_GetByID_def sampleDB_def schemeWith_def)

lemma find_append_fresh:
  "find P xs = None \<Longrightarrow> P x \<Longrightarrow> find P (xs @ [x]) = Some x"
  by (induction xs) (auto split: if_splits)

text \<open>
  C1. When the applicant and the scheme of the application exist and the applicant is not
  eligible for the scheme, \<open>Create\<close> returns the error \<open>applicant is not eligible for this
  scheme\<close>, the store it returns is the store it was given, and the application behind the
  pointer is untouched. The handler \<open>CreateApplication\<close>, on a request that names the
  pair, answers with that error and leaves the store as it was.
\<close>

theorem Create_ineligible_no_write:
  assumes "ApplicantRepository_GetByID db (Application.ApplicantID a) = Some applicant"
    and "SchemeRepository_GetByID db (Application.SchemeID a) = Some scheme"
    and "\<not> isEligible ulower now applicant scheme"
  shows "ApplicationRepository_Create ulower db now newid a =
           (db, a, Some ''applicant is not eligible for this scheme'') \<and>
         (\<forall>request. ApplicationRequest.ApplicantID request = Application.ApplicantID a \<and>
            ApplicationRequest.SchemeID request = Application.SchemeID a \<and>
            Application.ApplicantID a \<noteq> '''' \<and> Application.SchemeID a \<noteq> '''' \<longrightarrow>
            CreateApplication ulower db now newid (Inr request) =
              (db, HttpError 500
                ''Failed to create application: applicant is not eligible for this scheme''))"
  using assms
  by (simp add: ApplicationRepository_Create_def CreateApplication_def)

theorem Create_ineligible_no_write_witness:
  "ApplicationRepository_Create noUnicode sampleDB (atYear 2026) ''app2'' (sampleApplication ''s3'') =
     (sampleDB, sampleApplication ''s3'', Some ''applicant is not eligible for this scheme'') \<and>
   CreateApplication noUnicode sampleDB (atYear 2026) ''app2''
       (Inr \<lparr>ApplicantID = ''a1'', SchemeID = ''s3'', Notes = ''please''\<rparr>) =
     (sampleDB, HttpError 500
        ''Failed to create application: applicant is not eligible for this scheme'')"
proof -
  have y: "Year (atYear 2026) = 2026" by (simp add: atYear_def)
  have a: "ApplicantRepository_GetByID sampleDB (Application.ApplicantID (sampleApplication ''s3'')) =
      Some (applicantWith ''unemployed'' ''single'' [memberWith ''daughter'' 2017])"
    by (simp add: sampleApplication_def sample_applicant)
  have s: "SchemeRepository_GetByID sampleDB (Application.SchemeID (sampleApplication ''s3'')) =
      Some (schemeWith ''s3'' ''Couples Grant'' '''' ''married'' '''')"
    by (simp add: sampleApplication_def sample_scheme)
  show ?thesis
    using Create_ineligible_no_write
      [OF a s sample_eligibility(1) [OF y], of noUnicode "''app2''"]
    by (simp add: sampleApplication_def)
qed

text \<open>
  C9. On a request that names an existing applicant and an existing scheme for which the
  applicant is eligible, \<open>CreateApplication\<close> appends one row to the applications: its
  identifier is the fresh one, its status is \<open>pending\<close>, its application date is the
  current time, its applicant, scheme and notes are those of the request. The other tables
  are unchanged, and the answer is 201 with the application read back from the store.
\<close>

theorem CreateApplication_persists_pending:
  assumes "ApplicationRequest.ApplicantID request \<noteq> ''''"
    and "ApplicationRequest.SchemeID request \<noteq> ''''"
    and "ApplicantRepository_GetByID db (ApplicationRequest.ApplicantID request) = Some applicant"
    and "SchemeRepository_GetByID db (ApplicationRequest.SchemeID request) = Some scheme"
    and "isEligible ulower now applicant scheme"
    and "newid \<notin> col_id ` set (applications db)"
  shows "CreateApplication ulower db now newid (Inr request) =
      (db\<lparr>applications := applications db @
            [\<lparr>col_id = newid,
              col_applicant_id = ApplicationRequest.ApplicantID request,
              col_scheme_id = ApplicationRequest.SchemeID request,
              col_status = ''pending'',
              col_application_date = now,
              col_decision_date = None,
              col_notes = Some (ApplicationRequest.Notes request),
              col_created_at = now,
              col_updated_at = now\<rparr>]\<rparr>,
       HttpJSON 201
         \<lparr>Application.ID = newid,
          ApplicantID = ApplicationRequest.ApplicantID request,
          SchemeID = ApplicationRequest.SchemeID request,
          Status = ''pending'',
          ApplicationDate = now,
          DecisionDate = None,
          Notes = ApplicationRequest.Notes request,
          CreatedAt = now,
          UpdatedAt = now,
          Applicant = Some applicant,
          Scheme = Some scheme\<rparr>)"
proof -
  let ?row = "\<lparr>col_id = newid,
              col_applicant_id = ApplicationRequest.ApplicantID request,
              col_scheme_id = ApplicationRequest.SchemeID request,
              col_status = ''pending'',
              col_application_date = now,
              col_decision_date = None,
              col_notes = Some (ApplicationRequest.Notes request),
              col_created_at = now,
              col_updated_at = now\<rparr>"
  let ?db' = "db\<lparr>applications := applications db @ [?row]\<rparr>"
  let ?a = "\<lparr>Application.ID = '''',
            ApplicantID = ApplicationRequest.ApplicantID request,
            SchemeID = ApplicationRequest.SchemeID request,
            Status = ''pending'',
            ApplicationDate = zeroTime,
            DecisionDate = None,
            Notes = ApplicationRequest.Notes request,
            CreatedAt = zeroTime,
            UpdatedAt = zeroTime,
            Applicant = None,
            Scheme = None\<rparr>"
  have create: "ApplicationRepository_Create ulower db now newid ?a =
      (?db', ?a\<lparr>Application.ID := newid, Application.CreatedAt := now,
                 Application.UpdatedAt := now, ApplicationDate := now\<rparr>, None)"
    using assms(3-5) by (simp add: ApplicationRepository_Create_def)
  have "find (\<lambda>r. col_id r = newid) (applications db) = None"
    using assms(6) by (auto simp: find_None_iff)
  then have found: "find (\<lambda>r. col_id r = newid) (applications ?db') = Some ?row"
    by (simp add: find_append_fresh)
  have ap: "ApplicantRepository_GetByID ?db' = ApplicantRepository_GetByID db"
    and sc: "SchemeRepository_GetByID ?db' = SchemeRepository_GetByID db"
    by (simp_all add: fun_eq_iff ApplicantRepository_GetByID_def SchemeRepository_GetByID_def)
  have get: "ApplicationRepository_GetByID ?db' newid =
      Some \<lparr>Application.ID = newid,
          ApplicantID = ApplicationRequest.ApplicantID request,
          SchemeID = ApplicationRequest.SchemeID request,
          Status = ''pending'',
          ApplicationDate = now,
          DecisionDate = None,
          Notes = ApplicationRequest.Notes request,
          CreatedAt = now,
          UpdatedAt = now,
          Applicant = Some applicant,
          Scheme = Some scheme\<rparr>"
    unfolding ApplicationRepository_GetByID_def found
    using assms(3,4) by (simp add: scanApplication_def ap sc)
  show ?thesis
    using assms(1-4) create get
    by (simp add: CreateApplication_def respond_def)
qed

theorem CreateApplication_persists_pending_witness:
  "CreateApplication noUnicode sampleDB (atYear 2026) ''app2''
       (Inr \<lparr>ApplicantID = ''a1'', SchemeID = ''s2'', Notes = ''please''\<rparr>) =
     (sampleDB\<lparr>applications :=
        [sampleRow,
         \<lparr>col_id = ''app2'', col_applicant_id = ''a1'', col_scheme_id = ''s2'',
          col_status = ''pending'', col_application_date = atYear 2026,
          col_decision_date = None, col_notes = Some ''please'',
          col_created_at = atYear 2026, col_updated_at = atYear 2026\<rparr>]\<rparr>,
      HttpJSON 201
        \<lparr>Application.ID = ''app2'', ApplicantID = ''a1'', SchemeID = ''s2'',
         Status = ''pending'', ApplicationDate = atYear 2026, DecisionDate = None,
         Notes = ''please'', CreatedAt = atYear 2026, UpdatedAt = atYear 2026,
         Applicant = Some (applicantWith ''unemployed'' ''single'' [memberWith ''daughter'' 2017]),
         Scheme = Some (schemeWith ''s2'' ''School Support'' ''unemployed'' '''' ''primary'')\<rparr>)"
proof -
  let ?request = "\<lparr>ApplicantID = ''a1'', SchemeID = ''s2'', Notes = ''please''\<rparr>"
  have y: "Year (atYear 2026) = 2026" by (simp add: atYear_def)
  have 1: "ApplicationRequest.ApplicantID ?request \<noteq> ''''" by simp
  have 2: "ApplicationRequest.SchemeID ?request \<noteq> ''''" by simp
  have 3: "ApplicantRepository_GetByID sampleDB (ApplicationRequest.ApplicantID ?request) =
      Some (applicantWith ''unemployed'' ''single'' [memberWith ''daughter'' 2017])"
    by (simp add: sample_applicant)
  have 4: "SchemeRepository_GetByID sampleDB (ApplicationRequest.SchemeID ?request) =
      Some (schemeWith ''s2'' ''School Support'' ''unemployed'' '''' ''primary'')"
    by (simp add: sample_scheme)
  have 6: "''app2'' \<notin> col_id ` set (applications sampleDB)"
    by (simp add: sampleDB_def sampleRow_def)
  have apps: "applications sampleDB = [sampleRow]" by (simp add: sampleDB_def)
  show ?thesis
    using CreateApplication_persists_pending
      [OF 1 2 3 4 sample_eligibility(3) [OF y] 6, of noUnicode]
    by (simp add: apps)
qed

section \<open>Properties of the updates\<close>

lemma find_map_same_key:
  "(\<And>r. P (f r) = P r) \<Longrightarrow> find P (map f rs) = map_option f (find P rs)"
  by (induction rs) simp_all

lemma lookups_ignore_applications:
  "ApplicantRepository_GetByID (db\<lparr>applications := rows\<rparr>) = ApplicantRepository_GetByID db"
  "SchemeRepository_GetByID (db\<lparr>applications := rows\<rparr>) = SchemeRepository_GetByID db"
  by (simp_all add: fun_eq_iff ApplicantRepository_GetByID_def SchemeRepository_GetByID_def)

lemma GetByID_row:
  assumes "ApplicationRepository_GetByID db id' = Some existing"
  obtains r where "find (\<lambda>r. col_id r = id') (applications db) = Some r"
    and "existing = scanApplication db r" and "col_id r = id'"
proof -
  from assms obtain r where r: "find (\<lambda>r. col_id r = id') (applications db) = Some r"
    and e: "existing = scanApplication db r"
    by (auto simp: ApplicationRepository_GetByID_def split: option.splits)
  from r have "col_id r = id'" by (auto simp: find_Some_iff)
  with r e that show thesis by blast
qed

lemma UpdateApplication_effect:
  fixes request :: UpdateRequest and now :: gotime
  assumes "ApplicationRepository_GetByID db id' = Some existing"
  defines "updated \<equiv> existing
     \<lparr>Application.Status := (if UpdateRequest.Status request = '''' then Application.Status existing
                             else UpdateRequest.Status request),
      Application.Notes := (if UpdateRequest.Notes request = '''' then Application.Notes existing
                            else UpdateRequest.Notes request),
      Application.UpdatedAt := now\<rparr>"
  defines "db' \<equiv> db\<lparr>applications :=
      map (\<lambda>r. if col_id r = id'
               then r\<lparr>col_status := Application.Status updated,
                      col_decision_date := DecisionDate existing,
                      col_notes := Some (Application.Notes updated),
                      col_updated_at := now\<rparr>
               else r) (applications db)\<rparr>"
  shows "UpdateApplication db now id' (Inr request) = (db', respond 200 (Some updated))"
    and "ApplicationRepository_GetByID db' id' = Some updated"
proof -
  from assms(1) obtain r where r: "find (\<lambda>r. col_id r = id') (applications db) = Some r"
    and e: "existing = scanApplication db r" and k: "col_id r = id'"
    by (rule GetByID_row)
  have idx: "Application.ID existing = id'"
    using e k by (simp add: scanApplication_def)
  let ?f = "\<lambda>r. if col_id r = id'
               then r\<lparr>col_status := Application.Status updated,
                      col_decision_date := DecisionDate existing,
                      col_notes := Some (Application.Notes updated),
                      col_updated_at := now\<rparr>
               else r"
  have "find (\<lambda>r. col_id r = id') (map ?f (applications db)) =
        map_option ?f (find (\<lambda>r. col_id r = id') (applications db))"
    by (rule find_map_same_key) simp
  then have found: "find (\<lambda>r. col_id r = id') (applications db') = Some (?f r)"
    using r by (simp add: db'_def)
  show get: "ApplicationRepository_GetByID db' id' = Some updated"
    unfolding ApplicationRepository_GetByID_def found
    using k e
    by (simp add: scanApplication_def updated_def db'_def lookups_ignore_applications)
  have upd: "ApplicationRepository_Update db now
      (existing\<lparr>Application.Status := Application.Status updated,
                Application.Notes := Application.Notes updated\<rparr>) =
      (db', existing\<lparr>Application.Status := Application.Status updated,
                Application.Notes := Application.Notes updated,
                Application.UpdatedAt := now\<rparr>)"
    using idx
    by (cases "DecisionDate existing")
       (simp_all add: ApplicationRepository_Update_def db'_def Let_def updated_def)
  have ex2: "(let existing1 = (if UpdateRequest.Status request \<noteq> ''''
                              then existing\<lparr>Application.Status := UpdateRequest.Status request\<rparr>
                              else existing);
                 existing2 = (if UpdateRequest.Notes request \<noteq> ''''
                              then existing1\<lparr>Application.Notes := UpdateRequest.Notes request\<rparr>
                              else existing1)
             in existing2) = existing\<lparr>Application.Status := Application.Status updated,
                Application.Notes := Application.Notes updated\<rparr>"
    by (simp add: updated_def)
  show "UpdateApplication db now id' (Inr request) = (db', respond 200 (Some updated))"
    using assms(1) upd get idx ex2
    by (simp add: UpdateApplication_def Let_def updated_def split: if_splits)
qed

lemma filter_map_other_rows:
  "(\<And>r. P r \<Longrightarrow> f r = r) \<Longrightarrow> (\<And>r. P (f r) = P r) \<Longrightarrow>
     filter P (map f rs) = filter P rs"
  by (induction rs) simp_all

lemma UpdateStatus_decision_date:
  assumes "ApplicationRepository_GetByID db id' = Some existing"
  shows "ApplicationRepository_GetByID (ApplicationRepository_UpdateStatus db now id' status) id' =
     Some (existing\<lparr>Application.Status := status,
                     DecisionDate := (if status = ''approved'' \<or> status = ''rejected''
                                      then Some now else None),
                     Application.UpdatedAt := now\<rparr>)"
proof -
  from assms obtain r where r: "find (\<lambda>r. col_id r = id') (applications db) = Some r"
    and e: "existing = scanApplication db r" and k: "col_id r = id'"
    by (rule GetByID_row)
  let ?d = "if status = ''approved'' \<or> status = ''rejected'' then Some now else None"
  let ?f = "\<lambda>r. if col_id r = id'
               then r\<lparr>col_status := status, col_decision_date := ?d, col_updated_at := now\<rparr>
               else r"
  have "find (\<lambda>r. col_id r = id') (map ?f (applications db)) =
        map_option ?f (find (\<lambda>r. col_id r = id') (applications db))"
    by (rule find_map_same_key) simp
  then have "find (\<lambda>r. col_id r = id')
      (applications (ApplicationRepository_UpdateStatus db now id' status)) = Some (?f r)"
    using r by (simp add: ApplicationRepository_UpdateStatus_def)
  then show ?thesis
    unfolding ApplicationRepository_GetByID_def
    using k e
    by (simp add: scanApplication_def ApplicationRepository_UpdateStatus_def
        lookups_ignore_applications)
qed

lemma sample_existing:
  "ApplicationRepository_GetByID sampleDB ''app1'' =
     Some \<lparr>Application.ID = ''app1'', ApplicantID = ''a1'', SchemeID = ''s1'',
           Status = ''pending'', ApplicationDate = atYear 2025, DecisionDate = None,
           Notes = ''first request'', CreatedAt = atYear 2025, UpdatedAt = atYear 2025,
           Applicant = Some (applicantWith ''unemployed'' ''single'' [memberWith ''daughter'' 2017]),
           Scheme = Some (schemeWith ''s1'' ''Jobseeker Aid'' ''Unemployed'' '''' '''')\<rparr>"
proof -
  have "find (\<lambda>r. col_id r = ''app1'') (applications sampleDB) = Some sampleRow"
    by (simp add: sampleDB_def sampleRow_def)
  then show ?thesis
    by (simp add: ApplicationRepository_GetByID_def scanApplication_def sampleRow_def
        sample_applicant sample_scheme)
qed

text \<open>
  C3, on the code. \<open>UpdateStatus\<close> sets the decision date on \<open>approved\<close> and \<open>rejected\<close>
  and clears it otherwise (lemma \<open>UpdateStatus_decision_date\<close>), but no handler calls it.
  The handler \<open>UpdateApplication\<close> changes the status through \<open>Update\<close>, which writes back
  the decision date it read: approving the pending application of the sample store, a row
  as \<open>Create\<close> writes it, answers 200 and leaves the decision date unset.
\<close>

theorem UpdateApplication_approve_keeps_decision_date:
  "map (\<lambda>r. (col_id r, col_status r, col_decision_date r)) (applications sampleDB) =
     [(''app1'', ''pending'', None)] \<and>
   map (\<lambda>r. (col_id r, col_status r, col_decision_date r))
     (applications (fst (UpdateApplication sampleDB (atYear 2026) ''app1''
        (Inr \<lparr>Status = ''approved'', Notes = ''''\<rparr>)))) =
     [(''app1'', ''approved'', None)] \<and>
   snd (UpdateApplication sampleDB (atYear 2026) ''app1''
        (Inr \<lparr>Status = ''approved'', Notes = ''''\<rparr>)) =
     HttpJSON 200
       \<lparr>Application.ID = ''app1'', ApplicantID = ''a1'', SchemeID = ''s1'',
        Status = ''approved'', ApplicationDate = atYear 2025, DecisionDate = None,
        Notes = ''first request'', CreatedAt = atYear 2025, UpdatedAt = atYear 2026,
        Applicant = Some (applicantWith ''unemployed'' ''single'' [memberWith ''daughter'' 2017]),
        Scheme = Some (schemeWith ''s1'' ''Jobseeker Aid'' ''Unemployed'' '''' '''')\<rparr>"
  by code_simp

text \<open>
  C10, as stated: an update with empty status and empty notes leaves every field of the
  application unchanged. It does not: \<open>Update\<close> stamps the row, so the application read
  back has the time of the update in \<open>UpdatedAt\<close>.
\<close>

theorem UpdateApplication_touches_UpdatedAt_counterexample:
  "map_option Application.UpdatedAt (ApplicationRepository_GetByID sampleDB ''app1'') =
     Some (atYear 2025) \<and>
   map_option Application.UpdatedAt
     (ApplicationRepository_GetByID
        (fst (UpdateApplication sampleDB (atYear 2026) ''app1''
           (Inr \<lparr>Status = '''', Notes = ''''\<rparr>))) ''app1'') =
     Some (atYear 2026) \<and>
   atYear 2025 \<noteq> atYear 2026"
  by code_simp

text \<open>
  C10, amended. \<open>UpdateApplication\<close> on an existing application stores the application it
  read with three fields replaced: the status by that of the request unless that is empty,
  the notes by those of the request unless they are empty, and \<open>UpdatedAt\<close> by the time
  of the update. So an empty status or empty notes keep the stored value, a non-empty stored
  status or note is never replaced by the empty string, and every other field but
  \<open>UpdatedAt\<close> is unchanged; so are the other applications, the applicants and the
  schemes. The fields are those of the application as \<open>GetByID\<close> reads it, where a NULL
  note is the empty string.
\<close>

theorem UpdateApplication_empty_keeps:
  assumes "ApplicationRepository_GetByID db id' = Some existing"
  shows
    "(let db' = fst (UpdateApplication db now id' (Inr request));
          updated = existing
            \<lparr>Application.Status :=
               (if UpdateRequest.Status request = '''' then Application.Status existing
                else UpdateRequest.Status request),
             Application.Notes :=
               (if UpdateRequest.Notes request = '''' then Application.Notes existing
                else UpdateRequest.Notes request),
             Application.UpdatedAt := now\<rparr>
      in ApplicationRepository_GetByID db' id' = Some updated \<and>
         snd (UpdateApplication db now id' (Inr request)) = respond 200 (Some updated) \<and>
         (UpdateRequest.Status request = '''' \<longrightarrow>
            Application.Status updated = Application.Status existing) \<and>
         (UpdateRequest.Notes request = '''' \<longrightarrow>
            Application.Notes updated = Application.Notes existing) \<and>
         (Application.Status existing \<noteq> '''' \<longrightarrow> Application.Status updated \<noteq> '''') \<and>
         (Application.Notes existing \<noteq> '''' \<longrightarrow> Application.Notes updated \<noteq> '''') \<and>
         applicants db' = applicants db \<and>
         schemes db' = schemes db \<and>
         filter (\<lambda>r. col_id r \<noteq> id') (applications db') =
           filter (\<lambda>r. col_id r \<noteq> id') (applications db))"
proof -
  note eff = UpdateApplication_effect [OF assms, of now request]
  have other: "filter (\<lambda>r. col_id r \<noteq> id')
      (applications (fst (UpdateApplication db now id' (Inr request)))) =
      filter (\<lambda>r. col_id r \<noteq> id') (applications db)"
    unfolding eff(1) by (simp add: filter_map_other_rows)
  show ?thesis
    unfolding Let_def
    using eff(2) other by (simp add: eff(1))
qed

theorem UpdateApplication_empty_keeps_witness:
  "ApplicationRepository_GetByID
     (fst (UpdateApplication sampleDB (atYear 2026) ''app1''
        (Inr \<lparr>Status = '''', Notes = ''''\<rparr>))) ''app1'' =
     Some \<lparr>Application.ID = ''app1'', ApplicantID = ''a1'', SchemeID = ''s1'',
           Status = ''pending'', ApplicationDate = atYear 2025, DecisionDate = None,
           Notes = ''first request'', CreatedAt = atYear 2025, UpdatedAt = atYear 2026,
           Applicant = Some (applicantWith ''unemployed'' ''single'' [memberWith ''daughter'' 2017]),
           Scheme = Some (schemeWith ''s1'' ''Jobseeker Aid'' ''Unemployed'' '''' '''')\<rparr>"
  using UpdateApplication_empty_keeps
    [OF sample_existing, of "atYear 2026" "\<lparr>Status = '''', Notes = ''''\<rparr>"]
  by (simp add: Let_def)

end
